theory Spec2Isabelle
  imports Complex_Main
begin

section \<open>JavaScript values used by the handlers of src/index.ts\<close>

text \<open>
  A JavaScript number: a finite value, one of the two infinities, or NaN. Rounding plays
  no part in the handlers, which only compare a score with a constant and test it for
  truthiness, so a finite double is read as the real number it denotes (\<open>-0\<close> as \<open>0\<close>:
  both are falsy and compare equal).
\<close>

datatype number = Finite real | PosInf | NegInf | NaN

text \<open>The relational operator \<open>a > b\<close> on numbers; any comparison with NaN is false.\<close>

fun js_gt :: "number \<Rightarrow> number \<Rightarrow> bool" where
  "js_gt (Finite a) (Finite b) = (b < a)"
| "js_gt PosInf (Finite b) = True"
| "js_gt PosInf NegInf = True"
| "js_gt (Finite a) NegInf = True"
| "js_gt _ _ = False"

text \<open>
  What the callback of \<open>Array.prototype.filter\<close> may return in the second variant: a
  number or a boolean. \<open>filter\<close> keeps an element when the value is truthy; a number is
  truthy unless it is \<open>0\<close> or NaN.
\<close>

datatype jsval = JNumber number | JBoolean bool

fun truthy :: "jsval \<Rightarrow> bool" where
  "truthy (JBoolean b) = b"
| "truthy (JNumber (Finite x)) = (x \<noteq> 0)"
| "truthy (JNumber NaN) = False"
| "truthy (JNumber PosInf) = True"
| "truthy (JNumber NegInf) = True"

text \<open>\<open>Array.prototype.join\<close> on strings.\<close>

fun join :: "string \<Rightarrow> string list \<Rightarrow> string" where
  "join sep [] = []"
| "join sep [x] = x"
| "join sep (x # y # ys) = x @ sep @ join sep (y # ys)"

text \<open>\<open>xs[0]\<close>: \<open>undefined\<close> (here \<open>None\<close>) on an empty array.\<close>

fun index0 :: "'a list \<Rightarrow> 'a option" where
  "index0 [] = None"
| "index0 (x # xs) = Some x"

section \<open>Data of the pipeline\<close>

type_synonym vector = "number list"

datatype role = System | User

record message =
  role :: role
  content :: string

text \<open>A record of \<open>results.records\<close>: its \<open>text\<close> and its \<open>xata.score\<close>, which may be undefined.\<close>

record search_record =
  record_text :: string
  xata_score :: "number option"

text \<open>The object \<open>Notes.create\<close> resolves to.\<close>

record inserted_note =
  note_id :: string
  note_text :: string
  embedding :: vector

text \<open>
  What \<open>AI.run\<close> resolves to for the text-generation model: a \<open>ReadableStream\<close>, an
  object with an optional \<open>response\<close> string, \<open>null\<close>, or a value whose \<open>typeof\<close> is
  not \<open>'object'\<close>.
\<close>

datatype ai_output = ReadableStream | Object "string option" | Null | Primitive

definition instanceof_ReadableStream :: "ai_output \<Rightarrow> bool" where
  "instanceof_ReadableStream res = (res = ReadableStream)"

definition typeof_object :: "ai_output \<Rightarrow> bool" where
  "typeof_object res = (res \<noteq> Primitive)"

text \<open>
  Errors: an \<open>HTTPException\<close> thrown by a handler, the \<open>TypeError\<close> of a property read on
  \<open>undefined\<close> or \<open>null\<close>, and the rejection of an awaited call to an external service.
  None is caught by the handlers, so each ends the request.
\<close>

datatype error = HTTPException nat string | TypeError | Rejected string

datatype json = JString string | JNote inserted_note

datatype response = Text string | Json "(string \<times> json) list"

text \<open>The calls a handler makes to its external collaborators, in the order made.\<close>

datatype call =
    CallEmbedding "string list"
  | CallVectorSearch "vector option"
  | CallChat "message list"
  | CallCreate string vector

text \<open>
  The collaborators of a request, over a store of type \<open>'st\<close>:
  \<^item> \<open>ai_embed\<close> is \<open>AI.run('@cf/baai/bge-base-en-v1.5', { text })\<close>; it resolves to an
    object whose \<open>data\<close> property is an array of vectors (\<open>None\<close> when the property is
    missing), or rejects;
  \<^item> \<open>ai_chat\<close> is \<open>AI.run(model, { messages, stream: false })\<close>;
  \<^item> \<open>vectorSearch\<close> is \<open>Notes.vectorSearch('embedding', vectors, { size: 2 })\<close>, a read of
    the store; it resolves to \<open>results\<close> (\<open>None\<close> when falsy), given by its \<open>records\<close>;
  \<^item> \<open>create\<close> is \<open>Notes.create({ text, embedding })\<close>, the only write; it returns the new
    store with what it resolves to (\<open>None\<close> when falsy).
\<close>

record 'st env =
  ai_embed :: "string list \<Rightarrow> error + vector list option"
  ai_chat :: "message list \<Rightarrow> error + ai_output"
  vectorSearch :: "'st \<Rightarrow> vector option \<Rightarrow> error + search_record list option"
  create :: "'st \<Rightarrow> string \<Rightarrow> vector \<Rightarrow> (error + inserted_note option) \<times> 'st"

text \<open>What a request leaves behind: its result, the calls it made and the store.\<close>

record 'st outcome =
  result :: "error + response"
  calls :: "call list"
  store :: 'st

datatype variant = V1 | V2

section \<open>GET /query\<close>

definition default_question :: string where
  "default_question = ''What is the square root of 9?''"

text \<open>\<open>c.req.query('text') || '...'\<close>: the default replaces a missing and an empty text.\<close>

definition question_of :: "string option \<Rightarrow> string" where
  "question_of q = (case q of None \<Rightarrow> default_question
                     | Some s \<Rightarrow> if s = [] then default_question else s)"

definition SIMILARITY_CUTOFF :: "variant \<Rightarrow> real" where
  "SIMILARITY_CUTOFF v = (case v of V1 \<Rightarrow> 0.75 | V2 \<Rightarrow> 1.5)"

definition systemPrompt :: string where
  "systemPrompt = ''You are a helpful assistant. When answering the question or responding, use the context provided, if it is provided and relevant.''"

text \<open>
  First variant: \<open>let notes = []; if (results) notes = results.records.map((record) => record.text)\<close>.
  The cutoff is declared and not used.
\<close>

definition notes_v1 :: "search_record list option \<Rightarrow> string list" where
  "notes_v1 results = (case results of None \<Rightarrow> [] | Some records \<Rightarrow> map record_text records)"

text \<open>
  Second variant. \<open>??\<close> binds weaker than \<open>>\<close>, so the callback
  \<open>record.xata.score ?? 0 > SIMILARITY_CUTOFF\<close> is
  \<open>record.xata.score ?? (0 > SIMILARITY_CUTOFF)\<close>: the score itself when it is defined,
  else the boolean \<open>0 > SIMILARITY_CUTOFF\<close>.
\<close>

definition score_callback :: "real \<Rightarrow> search_record \<Rightarrow> jsval" where
  "score_callback cutoff r =
     (case xata_score r of Some s \<Rightarrow> JNumber s | None \<Rightarrow> JBoolean (0 > cutoff))"

definition notes_v2 :: "real \<Rightarrow> search_record list \<Rightarrow> string list" where
  "notes_v2 cutoff records =
     (if records \<noteq> []
      then map record_text (filter (\<lambda>r. truthy (score_callback cutoff r)) records)
      else [])"

definition newline :: string where
  "newline = [CHR 0x0A]"

definition contextMessage :: "string list \<Rightarrow> string" where
  "contextMessage notes =
     (if notes \<noteq> [] then ''Context:'' @ newline @ join newline (map (\<lambda>note. ''- '' @ note) notes)
      else [])"

text \<open>The array \<open>messages\<close>, with the system prompt as a parameter.\<close>

definition build_messages :: "string \<Rightarrow> string list \<Rightarrow> string \<Rightarrow> message list" where
  "build_messages prompt notes question =
     (if notes \<noteq> [] then [\<lparr>role = System, content = contextMessage notes\<rparr>] else [])
     @ [\<lparr>role = System, content = prompt\<rparr>, \<lparr>role = User, content = question\<rparr>]"

text \<open>The handling of \<open>res\<close>; \<open>res.response\<close> on \<open>null\<close> throws.\<close>

definition respond :: "ai_output \<Rightarrow> error + response" where
  "respond res =
     (if \<not> instanceof_ReadableStream res \<and> typeof_object res
      then (case res of
              Object r \<Rightarrow> Inr (Text (case r of Some s \<Rightarrow> s | None \<Rightarrow> ''No response available''))
            | _ \<Rightarrow> Inl TypeError)
      else Inr (Text ''Unable to process the AI response.''))"

text \<open>
  Steps 4 and 5 of the handler, the same in both variants: build the messages from the
  notes, run the model, answer. \<open>made\<close> holds the calls made so far.
\<close>

definition generate :: "'st env \<Rightarrow> 'st \<Rightarrow> call list \<Rightarrow> string list \<Rightarrow> string \<Rightarrow> 'st outcome" where
  "generate env st made notes question =
     (let messages = build_messages systemPrompt notes question
      in case ai_chat env messages of
           Inl e \<Rightarrow> \<lparr>result = Inl e, calls = made @ [CallChat messages], store = st\<rparr>
         | Inr res \<Rightarrow> \<lparr>result = respond res, calls = made @ [CallChat messages], store = st\<rparr>)"

definition query :: "variant \<Rightarrow> 'st env \<Rightarrow> 'st \<Rightarrow> string option \<Rightarrow> 'st outcome" where
  "query v env st q =
     (let question = question_of q
      in case ai_embed env [question] of
           Inl e \<Rightarrow> \<lparr>result = Inl e, calls = [CallEmbedding [question]], store = st\<rparr>
         | Inr None \<Rightarrow> \<lparr>result = Inl TypeError, calls = [CallEmbedding [question]], store = st\<rparr>
         | Inr (Some data) \<Rightarrow>
             (let vectors = index0 data;
                  made = [CallEmbedding [question], CallVectorSearch vectors]
              in case vectorSearch env st vectors of
                   Inl e \<Rightarrow> \<lparr>result = Inl e, calls = made, store = st\<rparr>
                 | Inr results \<Rightarrow>
                     (case v of
                        V1 \<Rightarrow> generate env st made (notes_v1 results) question
                      | V2 \<Rightarrow>
                          (case results of
                             None \<Rightarrow> \<lparr>result = Inl TypeError, calls = made, store = st\<rparr>
                           | Some records \<Rightarrow>
                               generate env st made (notes_v2 (SIMILARITY_CUTOFF V2) records)
                                 question))))"

section \<open>POST /notes\<close>

text \<open>
  \<open>!text\<close> for the \<open>text\<close> of the request body, read as a string when it is there:
  true of a missing and of an empty string.
\<close>

definition missing_text :: "string option \<Rightarrow> bool" where
  "missing_text t = (case t of None \<Rightarrow> True | Some s \<Rightarrow> s = [])"

text \<open>The body of the answer: \<open>{ text, inserted }\<close> in the first variant, \<open>{ inserted }\<close> in the second.\<close>

definition notes_response :: "variant \<Rightarrow> string \<Rightarrow> inserted_note \<Rightarrow> response" where
  "notes_response v t inserted =
     (case v of
        V1 \<Rightarrow> Json [(''text'', JString t), (''inserted'', JNote inserted)]
      | V2 \<Rightarrow> Json [(''inserted'', JNote inserted)])"

definition post_notes :: "variant \<Rightarrow> 'st env \<Rightarrow> 'st \<Rightarrow> string option \<Rightarrow> 'st outcome" where
  "post_notes v env st body_text =
     (case body_text of
        None \<Rightarrow> \<lparr>result = Inl (HTTPException 400 ''Missing text''), calls = [], store = st\<rparr>
      | Some t \<Rightarrow>
          if missing_text (Some t)
          then \<lparr>result = Inl (HTTPException 400 ''Missing text''), calls = [], store = st\<rparr>
          else
            (case ai_embed env [t] of
               Inl e \<Rightarrow> \<lparr>result = Inl e, calls = [CallEmbedding [t]], store = st\<rparr>
             | Inr None \<Rightarrow> \<lparr>result = Inl TypeError, calls = [CallEmbedding [t]], store = st\<rparr>
             | Inr (Some data) \<Rightarrow>
                 (case index0 data of
                    None \<Rightarrow>
                      \<lparr>result = Inl (HTTPException 500 ''Failed to create vector embedding''),
                       calls = [CallEmbedding [t]], store = st\<rparr>
                  | Some values \<Rightarrow>
                      (let made = [CallEmbedding [t], CallCreate t values]
                       in case create env st t values of
                            (Inl e, st') \<Rightarrow> \<lparr>result = Inl e, calls = made, store = st'\<rparr>
                          | (Inr None, st') \<Rightarrow>
                              \<lparr>result = Inl (HTTPException 500 ''Failed to create note''),
                               calls = made, store = st'\<rparr>
                          | (Inr (Some inserted), st') \<Rightarrow>
                              \<lparr>result = Inr (notes_response v t inserted), calls = made,
                               store = st'\<rparr>))))"


section \<open>The context selection as the specification words it\<close>

text \<open>
  Section 4.3 of the specification, for comparison with the code: keep the scored notes
  with \<open>score > cutoff\<close>, in the order given, then take at most \<open>maxNotes\<close>.
\<close>

definition assemble_spec :: "(string \<times> number) list \<Rightarrow> real \<Rightarrow> nat \<Rightarrow> string list" where
  "assemble_spec scoredNotes cutoff maxNotes =
     take maxNotes (map fst (filter (\<lambda>scored. js_gt (snd scored) (Finite cutoff)) scoredNotes))"

section \<open>Example collaborators\<close>

text \<open>
  A store that is the list of the notes created so far. The embedding model answers every
  text with \<open>data\<close>, the generation model answers every prompt with \<open>res\<close>; the search
  returns every stored note with score \<open>1\<close>, and \<open>create\<close> appends the new note.
\<close>

definition example_note :: "string \<Rightarrow> vector \<Rightarrow> inserted_note" where
  "example_note t values = \<lparr>note_id = ''rec_1'', note_text = t, embedding = values\<rparr>"

definition example_env :: "vector list \<Rightarrow> ai_output \<Rightarrow> inserted_note list env" where
  "example_env data res =
     \<lparr>ai_embed = (\<lambda>texts. Inr (Some data)),
      ai_chat = (\<lambda>messages. Inr res),
      vectorSearch = (\<lambda>st vectors.
        Inr (Some (map (\<lambda>n. \<lparr>record_text = note_text n, xata_score = Some (Finite 1)\<rparr>) st))),
      create = (\<lambda>st t values. (Inr (Some (example_note t values)), st @ [example_note t values]))\<rparr>"

section \<open>The context selection\<close>

text \<open>
  C1. The specification has the context hold exactly the retrieved notes whose score is
  strictly above the cutoff. The second variant keeps a note whose score \<open>1\<close> is below its
  cutoff \<open>1.5\<close>, where the selection of the specification keeps none: the callback returns
  the score itself, which is truthy. The first variant has no filter and keeps a note of
  score \<open>0\<close>.
\<close>

theorem notes_v2_keeps_note_below_cutoff:
  "notes_v2 (SIMILARITY_CUTOFF V2) [\<lparr>record_text = ''Paris'', xata_score = Some (Finite 1)\<rparr>] = [''Paris'']
   \<and> assemble_spec [(''Paris'', Finite 1)] (SIMILARITY_CUTOFF V2) 2 = []
   \<and> notes_v1 (Some [\<lparr>record_text = ''Paris'', xata_score = Some (Finite 0)\<rparr>]) = [''Paris'']"
  by (simp add: notes_v2_def notes_v1_def score_callback_def assemble_spec_def SIMILARITY_CUTOFF_def)

lemma truthy_score_callback_mono:
  "c1 \<le> c2 \<Longrightarrow> truthy (score_callback c2 r) \<Longrightarrow> truthy (score_callback c1 r)"
  by (cases "xata_score r") (auto simp: score_callback_def)

lemma length_filter_le:
  "(\<And>x. x \<in> set xs \<Longrightarrow> P x \<Longrightarrow> Q x) \<Longrightarrow> length (filter P xs) \<le> length (filter Q xs)"
  by (induction xs) auto

text \<open>
  C2. Raising the cutoff never makes the context larger: for \<open>c1 \<le> c2\<close> the notes selected
  under \<open>c2\<close> are at most as many as those selected under \<open>c1\<close>, also after truncation to
  any \<open>maxNotes\<close>. (The cutoff only decides the records without a score.)
\<close>

theorem notes_v2_antitone_in_cutoff:
  "c1 \<le> c2 \<Longrightarrow>
   length (notes_v2 c2 records) \<le> length (notes_v2 c1 records)
   \<and> length (take maxNotes (notes_v2 c2 records)) \<le> length (take maxNotes (notes_v2 c1 records))"
proof -
  assume le: "c1 \<le> c2"
  have "length (filter (\<lambda>r. truthy (score_callback c2 r)) records)
        \<le> length (filter (\<lambda>r. truthy (score_callback c1 r)) records)"
    by (rule length_filter_le) (rule truthy_score_callback_mono [OF le])
  then have "length (notes_v2 c2 records) \<le> length (notes_v2 c1 records)"
    by (simp add: notes_v2_def)
  then show ?thesis
    by simp
qed

theorem notes_v2_antitone_in_cutoff_witness:
  "(-1 :: real) \<le> 1.5
   \<and> length (notes_v2 1.5 [\<lparr>record_text = ''a'', xata_score = None\<rparr>,
                            \<lparr>record_text = ''b'', xata_score = Some (Finite 1)\<rparr>])
     \<le> length (notes_v2 (-1) [\<lparr>record_text = ''a'', xata_score = None\<rparr>,
                               \<lparr>record_text = ''b'', xata_score = Some (Finite 1)\<rparr>])
   \<and> notes_v2 1.5 [\<lparr>record_text = ''a'', xata_score = None\<rparr>,
                    \<lparr>record_text = ''b'', xata_score = Some (Finite 1)\<rparr>] = [''b'']
   \<and> notes_v2 (-1) [\<lparr>record_text = ''a'', xata_score = None\<rparr>,
                     \<lparr>record_text = ''b'', xata_score = Some (Finite 1)\<rparr>] = [''a'', ''b'']"
proof -
  have le: "(-1 :: real) \<le> 1.5"
    by simp
  have runs: "notes_v2 1.5 [\<lparr>record_text = ''a'', xata_score = None\<rparr>,
                    \<lparr>record_text = ''b'', xata_score = Some (Finite 1)\<rparr>] = [''b'']"
    "notes_v2 (-1) [\<lparr>record_text = ''a'', xata_score = None\<rparr>,
                     \<lparr>record_text = ''b'', xata_score = Some (Finite 1)\<rparr>] = [''a'', ''b'']"
    by (simp_all add: notes_v2_def score_callback_def)
  from notes_v2_antitone_in_cutoff [OF le, of
      "[\<lparr>record_text = ''a'', xata_score = None\<rparr>,
        \<lparr>record_text = ''b'', xata_score = Some (Finite 1)\<rparr>]" 2] le runs
  show ?thesis
    by (simp only: simp_thms)
qed

section \<open>The prompt\<close>

text \<open>
  C3. With no note the messages are the system prompt and the question; with at least one
  note the context block comes first, then the system prompt, then the question.
\<close>

theorem build_messages_shape:
  "build_messages prompt [] question
     = [\<lparr>role = System, content = prompt\<rparr>, \<lparr>role = User, content = question\<rparr>]
   \<and> build_messages prompt (n # ns) question
     = [\<lparr>role = System,
         content = ''Context:'' @ newline @ join newline (map (\<lambda>note. ''- '' @ note) (n # ns))\<rparr>,
        \<lparr>role = System, content = prompt\<rparr>, \<lparr>role = User, content = question\<rparr>]"
proof
  show "build_messages prompt [] question
          = [\<lparr>role = System, content = prompt\<rparr>, \<lparr>role = User, content = question\<rparr>]"
    by (simp add: build_messages_def)
next
  have block: "contextMessage (n # ns)
                 = ''Context:'' @ newline @ join newline (map (\<lambda>note. ''- '' @ note) (n # ns))"
    by (simp only: contextMessage_def list.distinct simp_thms if_True)
  have "build_messages prompt (n # ns) question
          = [\<lparr>role = System, content = contextMessage (n # ns)\<rparr>,
             \<lparr>role = System, content = prompt\<rparr>, \<lparr>role = User, content = question\<rparr>]"
    by (simp add: build_messages_def)
  then show "build_messages prompt (n # ns) question
     = [\<lparr>role = System,
         content = ''Context:'' @ newline @ join newline (map (\<lambda>note. ''- '' @ note) (n # ns))\<rparr>,
        \<lparr>role = System, content = prompt\<rparr>, \<lparr>role = User, content = question\<rparr>]"
    by (simp only: block)
qed

section \<open>GET /query: calls and answer\<close>

text \<open>The calls of a request: the embedding, then the search, then the generation.\<close>

lemma query_calls_cases:
  "calls (query v env st q) = [CallEmbedding [question_of q]]
   \<or> (\<exists>vectors. calls (query v env st q)
          = [CallEmbedding [question_of q], CallVectorSearch vectors])
   \<or> (\<exists>vectors notes. calls (query v env st q)
          = [CallEmbedding [question_of q], CallVectorSearch vectors,
             CallChat (build_messages systemPrompt notes (question_of q))])"
  by (auto simp: query_def generate_def Let_def split: sum.splits option.splits variant.splits)

lemma last_build_messages:
  "last (build_messages prompt notes question) = \<lparr>role = User, content = question\<rparr>"
  by (simp add: build_messages_def)

lemma query_result_after_chat:
  "last (calls (query v env st q)) = CallChat messages \<Longrightarrow>
   result (query v env st q) = (case ai_chat env messages of Inl e \<Rightarrow> Inl e | Inr res \<Rightarrow> respond res)"
  by (auto simp: query_def generate_def Let_def split: sum.splits option.splits variant.splits)

text \<open>
  C4, as the code has it. When the generation model was called and resolved to a
  \<open>ReadableStream\<close> or to a value whose \<open>typeof\<close> is not \<open>'object'\<close>, the request does not fail: it
  answers the fixed text \<open>Unable to process the AI response.\<close>
\<close>

theorem unexpected_shape_answered_with_fixed_text:
  "last (calls (query v env st q)) = CallChat messages \<Longrightarrow>
   ai_chat env messages = Inr res \<Longrightarrow>
   instanceof_ReadableStream res \<or> \<not> typeof_object res \<Longrightarrow>
   result (query v env st q) = Inr (Text ''Unable to process the AI response.'')"
  by (auto simp: query_result_after_chat respond_def)

theorem unexpected_shape_answered_with_fixed_text_witness:
  "last (calls (query V2 (example_env [[Finite 1]] Primitive) [] None))
     = CallChat (build_messages systemPrompt [] default_question)
   \<and> ai_chat (example_env [[Finite 1]] Primitive) (build_messages systemPrompt [] default_question)
     = Inr Primitive
   \<and> \<not> typeof_object Primitive
   \<and> result (query V2 (example_env [[Finite 1]] Primitive) [] None)
     = Inr (Text ''Unable to process the AI response.'')"
  using unexpected_shape_answered_with_fixed_text [of V2 "example_env [[Finite 1]] Primitive" "[]" None
      "build_messages systemPrompt [] default_question" Primitive]
  by (simp add: query_def generate_def example_env_def question_of_def notes_v2_def
      typeof_object_def Let_def)

text \<open>
  C4, as the specification states it, fails: a request whose generation call resolves to a
  stream ends with an answer, not with an error.
\<close>

theorem stream_answered_with_fixed_text:
  "result (query V1 (example_env [[Finite 1]] ReadableStream) [] (Some ''hi''))
     = Inr (Text ''Unable to process the AI response.'')"
  by (simp add: query_def generate_def example_env_def question_of_def notes_v1_def respond_def
      instanceof_ReadableStream_def Let_def)

text \<open>
  C5. When the generation model was called and resolved to an object without a
  \<open>response\<close>, the request answers the text \<open>No response available\<close>.
\<close>

theorem missing_response_gives_sentinel:
  "last (calls (query v env st q)) = CallChat messages \<Longrightarrow>
   ai_chat env messages = Inr (Object None) \<Longrightarrow>
   result (query v env st q) = Inr (Text ''No response available'')"
  by (simp add: query_result_after_chat respond_def instanceof_ReadableStream_def typeof_object_def)

theorem missing_response_gives_sentinel_witness:
  "last (calls (query V1 (example_env [[Finite 1]] (Object None)) [] (Some ''hi'')))
     = CallChat (build_messages systemPrompt [] ''hi'')
   \<and> ai_chat (example_env [[Finite 1]] (Object None)) (build_messages systemPrompt [] ''hi'')
     = Inr (Object None)
   \<and> result (query V1 (example_env [[Finite 1]] (Object None)) [] (Some ''hi''))
     = Inr (Text ''No response available'')"
  using missing_response_gives_sentinel [of V1 "example_env [[Finite 1]] (Object None)" "[]"
      "Some ''hi''" "build_messages systemPrompt [] ''hi''"]
  by (simp add: query_def generate_def example_env_def question_of_def notes_v1_def Let_def)

text \<open>
  C6. The specification has a request fail, without a search, when the embedding model
  returns no data. With \<open>data = []\<close> the handler of \<open>/query\<close> calls the search with an
  undefined vector and goes on to answer; the handler of \<open>/notes\<close> stops at the same
  embedding result with status 500.
\<close>

theorem query_searches_without_embedding:
  "calls (query V1 (example_env [] (Object (Some ''3''))) [] (Some ''hi''))
     = [CallEmbedding [''hi''], CallVectorSearch None,
        CallChat (build_messages systemPrompt [] ''hi'')]
   \<and> result (query V1 (example_env [] (Object (Some ''3''))) [] (Some ''hi'')) = Inr (Text ''3'')
   \<and> result (post_notes V1 (example_env [] (Object (Some ''3''))) [] (Some ''hi''))
     = Inl (HTTPException 500 ''Failed to create vector embedding'')"
  by (simp add: query_def generate_def example_env_def question_of_def notes_v1_def respond_def
      instanceof_ReadableStream_def typeof_object_def post_notes_def missing_text_def Let_def)





text \<open>
  C10. The first call of a request is the embedding of the question, and every prompt sent
  to the generation model ends with the user message holding the same question; a missing
  or an empty question is the default one in both.
\<close>

theorem embedded_text_is_the_user_message:
  "hd (calls (query v env st q)) = CallEmbedding [question_of q]
   \<and> (CallChat messages \<in> set (calls (query v env st q))
        \<longrightarrow> last messages = \<lparr>role = User, content = question_of q\<rparr>)
   \<and> question_of None = default_question
   \<and> question_of (Some '''') = default_question"
proof -
  have "hd (calls (query v env st q)) = CallEmbedding [question_of q]"
    using query_calls_cases [of v env st q] by auto
  moreover have "last messages = \<lparr>role = User, content = question_of q\<rparr>"
    if "CallChat messages \<in> set (calls (query v env st q))"
    using query_calls_cases [of v env st q] that by (auto simp: last_build_messages)
  moreover have "question_of None = default_question" "question_of (Some '''') = default_question"
    by (simp_all add: question_of_def)
  ultimately show ?thesis by simp
qed

theorem embedded_text_is_the_user_message_witness:
  "hd (calls (query V2 (example_env [[Finite 1]] (Object (Some ''3''))) [] (Some '''')))
     = CallEmbedding [default_question]
   \<and> CallChat (build_messages systemPrompt [] default_question)
       \<in> set (calls (query V2 (example_env [[Finite 1]] (Object (Some ''3''))) [] (Some '''')))
   \<and> last (build_messages systemPrompt [] default_question)
       = \<lparr>role = User, content = default_question\<rparr>"
  using embedded_text_is_the_user_message [of V2 "example_env [[Finite 1]] (Object (Some ''3''))" "[]"
      "Some ''''" "build_messages systemPrompt [] default_question"]
  by (simp add: query_def generate_def example_env_def question_of_def notes_v2_def Let_def)

section \<open>POST /notes: validation, order of calls and answer\<close>

lemma post_notes_missing:
  "missing_text t \<Longrightarrow>
   post_notes v env st t
     = \<lparr>result = Inl (HTTPException 400 ''Missing text''), calls = [], store = st\<rparr>"
  by (simp add: post_notes_def missing_text_def split: option.splits)

lemma post_notes_embedding_failed:
  assumes "x \<noteq> []" and "\<not> (\<exists>values rest. ai_embed env [x] = Inr (Some (values # rest)))"
  shows "store (post_notes v env st (Some x)) = st"
    and "calls (post_notes v env st (Some x)) = [CallEmbedding [x]]"
    and "isl (result (post_notes v env st (Some x)))"
proof -
  consider e where "ai_embed env [x] = Inl e" | "ai_embed env [x] = Inr None"
    | "ai_embed env [x] = Inr (Some [])"
  proof (cases "ai_embed env [x]")
    case (Inl e)
    with that show ?thesis by blast
  next
    case (Inr b)
    show ?thesis
    proof (cases b)
      case None
      with Inr that show ?thesis by blast
    next
      case (Some data)
      with Inr assms(2) have "data = []" by (cases data) auto
      with Inr Some that show ?thesis by blast
    qed
  qed
  then have "store (post_notes v env st (Some x)) = st
      \<and> calls (post_notes v env st (Some x)) = [CallEmbedding [x]]
      \<and> isl (result (post_notes v env st (Some x)))"
    using assms(1) by cases (simp_all add: post_notes_def missing_text_def)
  then show "store (post_notes v env st (Some x)) = st"
    and "calls (post_notes v env st (Some x)) = [CallEmbedding [x]]"
    and "isl (result (post_notes v env st (Some x)))"
    by simp_all
qed

lemma post_notes_embedded:
  assumes "x \<noteq> []" and "ai_embed env [x] = Inr (Some (values # rest))"
  shows "calls (post_notes v env st (Some x)) = [CallEmbedding [x], CallCreate x values]"
    and "store (post_notes v env st (Some x)) = snd (create env st x values)"
    and "result (post_notes v env st (Some x))
          = (case fst (create env st x values) of
               Inl e \<Rightarrow> Inl e
             | Inr None \<Rightarrow> Inl (HTTPException 500 ''Failed to create note'')
             | Inr (Some inserted) \<Rightarrow> Inr (notes_response v x inserted))"
  using assms
  by (simp_all add: post_notes_def missing_text_def Let_def
      split: prod.splits sum.splits option.splits)

lemma post_notes_create_called:
  assumes "CallCreate x values \<in> set (calls (post_notes v env st t))"
  shows "t = Some x \<and> (\<exists>rest. ai_embed env [x] = Inr (Some (values # rest)))
         \<and> calls (post_notes v env st t) = [CallEmbedding [x], CallCreate x values]"
proof (cases "missing_text t")
  case True
  with assms show ?thesis by (simp add: post_notes_missing)
next
  case False
  then obtain y where t: "t = Some y" and y: "y \<noteq> []"
    by (auto simp: missing_text_def split: option.splits)
  show ?thesis
  proof (cases "\<exists>values rest. ai_embed env [y] = Inr (Some (values # rest))")
    case True
    then obtain w rest where "ai_embed env [y] = Inr (Some (w # rest))" by blast
    with assms t y show ?thesis by (simp add: post_notes_embedded)
  next
    case False
    with assms t y show ?thesis by (simp add: post_notes_embedding_failed)
  qed
qed

text \<open>
  C7. A missing or an empty text is rejected with status 400 before any call, the store
  untouched. A call of \<open>create\<close> happens only for a text whose embedding call returned a
  first vector, which is the vector it stores, and it is the second and last call of the
  request. When the embedding call rejects or returns no vector, the request fails after
  the embedding call and the store is the one it started with.
\<close>

theorem post_notes_validates_then_embeds_then_writes:
  "(missing_text t \<longrightarrow>
      post_notes v env st t
        = \<lparr>result = Inl (HTTPException 400 ''Missing text''), calls = [], store = st\<rparr>)
   \<and> (CallCreate x values \<in> set (calls (post_notes v env st t)) \<longrightarrow>
        t = Some x \<and> (\<exists>rest. ai_embed env [x] = Inr (Some (values # rest)))
        \<and> calls (post_notes v env st t) = [CallEmbedding [x], CallCreate x values])
   \<and> (y \<noteq> [] \<and> \<not> (\<exists>values rest. ai_embed env [y] = Inr (Some (values # rest))) \<longrightarrow>
        store (post_notes v env st (Some y)) = st
        \<and> calls (post_notes v env st (Some y)) = [CallEmbedding [y]]
        \<and> isl (result (post_notes v env st (Some y))))"
  using post_notes_missing [of t v env st] post_notes_create_called [of x "values" v env st t]
    post_notes_embedding_failed [of y env v st]
  by blast

theorem post_notes_validates_then_embeds_then_writes_witness:
  "missing_text (Some [])
   \<and> post_notes V1 (example_env [] Null) [] (Some [])
       = \<lparr>result = Inl (HTTPException 400 ''Missing text''), calls = [], store = []\<rparr>
   \<and> CallCreate ''hi'' [Finite 1]
       \<in> set (calls (post_notes V2 (example_env [[Finite 1]] Null) [] (Some ''hi'')))
   \<and> ai_embed (example_env [[Finite 1]] Null) [''hi''] = Inr (Some [[Finite 1]])
   \<and> calls (post_notes V2 (example_env [[Finite 1]] Null) [] (Some ''hi''))
       = [CallEmbedding [''hi''], CallCreate ''hi'' [Finite 1]]
   \<and> ai_embed (example_env [] Null) [''hi''] = Inr (Some [])
   \<and> store (post_notes V1 (example_env [] Null) [] (Some ''hi'')) = []
   \<and> calls (post_notes V1 (example_env [] Null) [] (Some ''hi'')) = [CallEmbedding [''hi'']]
   \<and> isl (result (post_notes V1 (example_env [] Null) [] (Some ''hi'')))"
proof -
  have missing: "missing_text (Some [])"
    by (simp add: missing_text_def)
  have called: "CallCreate ''hi'' [Finite 1]
      \<in> set (calls (post_notes V2 (example_env [[Finite 1]] Null) [] (Some ''hi'')))"
    by (simp add: post_notes_def example_env_def missing_text_def Let_def)
  have failed: "''hi'' \<noteq> [] \<and> \<not> (\<exists>values rest.
      ai_embed (example_env [] Null) [''hi''] = Inr (Some (values # rest)))"
    by (simp add: example_env_def)
  have data: "ai_embed (example_env [[Finite 1]] Null) [''hi''] = Inr (Some [[Finite 1]])"
    "ai_embed (example_env [] Null) [''hi''] = Inr (Some [])"
    by (simp_all add: example_env_def)
  from post_notes_validates_then_embeds_then_writes
      [of "Some []" V1 "example_env [] Null" "[]" "''hi''" "[Finite 1]" "''hi''"]
    post_notes_validates_then_embeds_then_writes
      [of "Some ''hi''" V2 "example_env [[Finite 1]] Null" "[]" "''hi''" "[Finite 1]" "''hi''"]
    missing called failed data
  show ?thesis by simp
qed

text \<open>
  C9, as the code has it. A request that succeeds had a non-empty text and answers the
  note that \<open>create\<close> resolved to, under the key \<open>inserted\<close>; the first variant adds the
  text under the key \<open>text\<close>, the second variant does not.
\<close>

theorem post_notes_answer:
  assumes "result (post_notes v env st t) = Inr r"
  shows "\<exists>x values inserted.
     t = Some x \<and> x \<noteq> [] \<and> fst (create env st x values) = Inr (Some inserted)
     \<and> r = (case v of
              V1 \<Rightarrow> Json [(''text'', JString x), (''inserted'', JNote inserted)]
            | V2 \<Rightarrow> Json [(''inserted'', JNote inserted)])"
proof -
  have "\<not> missing_text t"
    using assms post_notes_missing [of t v env st] by auto
  then obtain x where t: "t = Some x" and x: "x \<noteq> []"
    by (auto simp: missing_text_def split: option.splits)
  have "\<exists>values rest. ai_embed env [x] = Inr (Some (values # rest))"
    using assms t post_notes_embedding_failed(3) [OF x, of env v st] by auto
  then obtain w rest where embedded: "ai_embed env [x] = Inr (Some (w # rest))"
    by blast
  from assms t have "(case fst (create env st x w) of
               Inl e \<Rightarrow> Inl e
             | Inr None \<Rightarrow> Inl (HTTPException 500 ''Failed to create note'')
             | Inr (Some inserted) \<Rightarrow> Inr (notes_response v x inserted)) = Inr r"
    by (simp add: post_notes_embedded(3) [OF x embedded])
  then obtain inserted where "fst (create env st x w) = Inr (Some inserted)"
    and "r = notes_response v x inserted"
    by (auto split: sum.splits option.splits)
  with t x show ?thesis
    by (auto simp: notes_response_def split: variant.splits)
qed

theorem post_notes_answer_witness:
  "result (post_notes V1 (example_env [[Finite 1]] Null) [] (Some ''hi''))
     = Inr (Json [(''text'', JString ''hi''), (''inserted'', JNote (example_note ''hi'' [Finite 1]))])
   \<and> (\<exists>x values inserted.
         Some ''hi'' = Some x \<and> x \<noteq> []
         \<and> fst (create (example_env [[Finite 1]] Null) [] x values) = Inr (Some inserted)
         \<and> Json [(''text'', JString ''hi''), (''inserted'', JNote (example_note ''hi'' [Finite 1]))]
             = (case V1 of
                  V1 \<Rightarrow> Json [(''text'', JString x), (''inserted'', JNote inserted)]
                | V2 \<Rightarrow> Json [(''inserted'', JNote inserted)]))"
proof -
  have run: "result (post_notes V1 (example_env [[Finite 1]] Null) [] (Some ''hi''))
     = Inr (Json [(''text'', JString ''hi''), (''inserted'', JNote (example_note ''hi'' [Finite 1]))])"
    by (simp add: post_notes_def example_env_def missing_text_def Let_def notes_response_def)
  from post_notes_answer [OF run] run show ?thesis
    by blast
qed

text \<open>
  C9, as the specification states it, fails in the second variant: the answer of a
  successful request has the key \<open>inserted\<close> only.
\<close>

theorem second_variant_answers_inserted_only:
  "result (post_notes V2 (example_env [[Finite 1]] Null) [] (Some ''hi''))
     = Inr (Json [(''inserted'', JNote (example_note ''hi'' [Finite 1]))])
   \<and> map_of [(''inserted'', JNote (example_note ''hi'' [Finite 1]))] ''text'' = None"
  by (simp add: post_notes_def example_env_def missing_text_def Let_def notes_response_def)

end
